theory Spec2Isabelle
  imports Main "HOL-Library.Word"
begin

unbundle bit_operations_syntax

section \<open>Tiered block-file rollover (block\_tiered.c)\<close>

text \<open>
  The three functions of \<^verbatim>\<open>block_tiered.c\<close> are embedded as state-passing functions
  over the session and the block handle. Every function of the storage engine they call
  lives in another file; each such call is recorded in the session's call log with
  its arguments and its return code, and the return code is drawn from a record of
  outcomes, so that every failure path of the source is a branch of the model.
\<close>

subsection \<open>Data model\<close>

type_synonym uint32_t = "32 word"
type_synonym wt_off_t = "64 word"

datatype wt_fs_open_file_type =
    WT_FS_OPEN_FILE_TYPE_CHECKPOINT
  | WT_FS_OPEN_FILE_TYPE_DATA
  | WT_FS_OPEN_FILE_TYPE_DIRECTORY
  | WT_FS_OPEN_FILE_TYPE_LOG
  | WT_FS_OPEN_FILE_TYPE_REGULAR

text \<open>An open file handle (\<^verbatim>\<open>WT_FH\<close>): the file it was opened on, how, and through
  which storage backend (\<open>None\<close> is the local disk).\<close>

record wt_fh =
  fh_name :: string
  fh_file_type :: wt_fs_open_file_type
  fh_flags :: uint32_t
  fh_bucket :: "string option"

text \<open>The checkpoint structure (\<^verbatim>\<open>WT_BLOCK_CKPT\<close>). The source reads
  \<open>root_objectid\<close> only; the extent lists stand for the rest of the metadata.\<close>

record wt_block_ckpt =
  root_objectid :: uint32_t
  ckpt_name :: string
  ckpt_extents :: "(nat \<times> nat) list"
  ckpt_valid :: bool

text \<open>The block handle (\<^verbatim>\<open>WT_BLOCK\<close>), with the fields the source touches.
  \<open>fh = None\<close> is the \<^verbatim>\<open>NULL\<close> handle.\<close>

record wt_block =
  name :: string
  objectid :: uint32_t
  fh :: "wt_fh option"
  allocsize :: uint32_t
  file_flags :: uint32_t
  size :: wt_off_t
  has_objects :: bool
  live :: wt_block_ckpt

text \<open>One entry of the call log per call into the rest of the engine.\<close>

datatype wt_call =
    Scr_alloc int
  | Close "wt_fh option" int
  | Buf_fmt string uint32_t int
  | Open_file string wt_fs_open_file_type uint32_t "string option" int
  | Desc_write "wt_fh option" uint32_t int
  | Ckpt_destroy
  | Ckpt_init string int
  | Scr_free

record wt_session =
  bucket_storage :: "string option"
  io_log :: "wt_call list"

text \<open>What the rest of the engine answers during one call of
  \<^verbatim>\<open>__wt_block_tiered_newfile\<close>: the return code of each function called (0 is
  success), and the value of the constant \<^verbatim>\<open>WT_FS_OPEN_CREATE\<close>, whose
  declaration is in a header outside this file.\<close>

record wt_ext =
  WT_FS_OPEN_CREATE :: uint32_t
  scr_alloc_ret :: int
  close_ret :: int
  buf_fmt_ret :: int
  open_ret :: int
  desc_write_ret :: int
  ckpt_init_ret :: int

definition log_call :: "wt_call \<Rightarrow> wt_session \<Rightarrow> wt_session" where
  "log_call c s = s\<lparr>io_log := io_log s @ [c]\<rparr>"

subsection \<open>Filename formatting\<close>

text \<open>Modelled from the spec: \<^verbatim>\<open>__wt_buf_fmt\<close> is a printf-style formatter defined
  outside this file. The source calls it with the format \<^verbatim>\<open>"%s.%08" PRIu32\<close>; the
  spec writes the result as \<^verbatim>\<open>{name}.{objectId:08d}\<close>. The conversion renders the
  number in decimal and pads it on the left with zeros to a width of at least 8.\<close>

definition digit_char :: "nat \<Rightarrow> char" where
  "digit_char d = ''0123456789'' ! (d mod 10)"

fun dec_digits :: "nat \<Rightarrow> string" where
  "dec_digits n =
     (if n < 10 then [digit_char n] else dec_digits (n div 10) @ [digit_char (n mod 10)])"

declare dec_digits.simps [simp del]

definition fmt_08u :: "uint32_t \<Rightarrow> string" where
  "fmt_08u v =
     (let ds = dec_digits (unat v) in replicate (8 - length ds) (CHR ''0'') @ ds)"

definition fmt_filename :: "string \<Rightarrow> uint32_t \<Rightarrow> string" where
  "fmt_filename nm v = nm @ ''.'' @ fmt_08u v"

text \<open>Reading a decimal numeral back, to state that the rendering loses nothing.\<close>

definition digit_val :: "char \<Rightarrow> nat" where
  "digit_val c = of_char c - 48"

definition dec_value :: "string \<Rightarrow> nat" where
  "dec_value cs = foldl (\<lambda>a c. 10 * a + digit_val c) 0 cs"

subsection \<open>The functions called by the source\<close>

text \<open>Modelled from the spec: \<^verbatim>\<open>__wt_scr_alloc\<close> and \<^verbatim>\<open>__wt_scr_free\<close> are
  defined outside this file. Allocation gives an empty scratch buffer or fails leaving
  the item \<^verbatim>\<open>NULL\<close>; freeing a \<^verbatim>\<open>NULL\<close> item does nothing.\<close>

definition wt_scr_alloc :: "wt_ext \<Rightarrow> wt_session \<Rightarrow> int \<times> wt_session \<times> string option" where
  "wt_scr_alloc x s =
     (scr_alloc_ret x, log_call (Scr_alloc (scr_alloc_ret x)) s,
      if scr_alloc_ret x = 0 then Some [] else None)"

definition wt_scr_free :: "wt_session \<Rightarrow> string option \<Rightarrow> wt_session" where
  "wt_scr_free s tmp = (case tmp of None \<Rightarrow> s | Some d \<Rightarrow> log_call Scr_free s)"

text \<open>Modelled from the spec: \<^verbatim>\<open>__wt_close\<close> is defined outside this file. It closes
  the current file handle if one is open and releases the ownership (the handle pointer
  is cleared); with no handle open it returns success.\<close>

definition wt_close :: "wt_ext \<Rightarrow> wt_session \<Rightarrow> wt_fh option \<Rightarrow> int \<times> wt_session \<times> wt_fh option" where
  "wt_close x s fhp =
     (case fhp of
        None \<Rightarrow> (0, log_call (Close None 0) s, None)
      | Some h \<Rightarrow> (close_ret x, log_call (Close (Some h) (close_ret x)) s, None))"

definition wt_buf_fmt ::
  "wt_ext \<Rightarrow> wt_session \<Rightarrow> string option \<Rightarrow> string \<Rightarrow> uint32_t \<Rightarrow> int \<times> wt_session \<times> string option" where
  "wt_buf_fmt x s tmp nm v =
     (buf_fmt_ret x, log_call (Buf_fmt nm v (buf_fmt_ret x)) s,
      if buf_fmt_ret x = 0 then Some (fmt_filename nm v) else tmp)"

text \<open>\<^verbatim>\<open>tmp->data\<close>; the item is never \<^verbatim>\<open>NULL\<close> where the source reads it.\<close>

definition item_data :: "string option \<Rightarrow> string" where
  "item_data tmp = (case tmp of None \<Rightarrow> [] | Some d \<Rightarrow> d)"

text \<open>Modelled from the spec: \<^verbatim>\<open>__wt_open\<close> is defined outside this file. It
  creates or opens the file through the storage backend associated with the session at
  the time of the call, and stores the new handle on success.\<close>

definition wt_open ::
  "wt_ext \<Rightarrow> wt_session \<Rightarrow> string \<Rightarrow> wt_fs_open_file_type \<Rightarrow> uint32_t \<Rightarrow> wt_fh option
     \<Rightarrow> int \<times> wt_session \<times> wt_fh option" where
  "wt_open x s filename ftype flags fhp =
     (open_ret x,
      log_call (Open_file filename ftype flags (bucket_storage s) (open_ret x)) s,
      if open_ret x = 0
      then Some \<lparr>fh_name = filename, fh_file_type = ftype, fh_flags = flags,
                 fh_bucket = bucket_storage s\<rparr>
      else fhp)"

text \<open>Modelled from the spec: the macro \<^verbatim>\<open>WT_WITH_BUCKET_STORAGE\<close> is defined in a
  header outside this file. It associates the given backend with the session for the
  duration of the enclosed statement and restores the previous association after it.\<close>

definition with_bucket_storage ::
  "string option \<Rightarrow> wt_session \<Rightarrow> (wt_session \<Rightarrow> int \<times> wt_session \<times> 'a) \<Rightarrow> int \<times> wt_session \<times> 'a" where
  "with_bucket_storage bsp s e =
     (let saved = bucket_storage s in
      case e (s\<lparr>bucket_storage := bsp\<rparr>) of
        (ret, s', v) \<Rightarrow> (ret, s'\<lparr>bucket_storage := saved\<rparr>, v))"

text \<open>Modelled from the spec: \<^verbatim>\<open>__wt_desc_write\<close> is defined outside this file. It
  writes the descriptor header of the given size into the file.\<close>

definition wt_desc_write :: "wt_ext \<Rightarrow> wt_session \<Rightarrow> wt_fh option \<Rightarrow> uint32_t \<Rightarrow> int \<times> wt_session" where
  "wt_desc_write x s fhp asz =
     (desc_write_ret x, log_call (Desc_write fhp asz (desc_write_ret x)) s)"

text \<open>Modelled from the spec: \<^verbatim>\<open>__wt_block_ckpt_destroy\<close> and
  \<^verbatim>\<open>__wt_block_ckpt_init\<close> are defined outside this file. Destroying releases the
  checkpoint's metadata and leaves it unusable; initialising constructs a fresh
  checkpoint state carrying the given tag.\<close>

definition wt_block_ckpt_destroy :: "wt_session \<Rightarrow> wt_block_ckpt \<Rightarrow> wt_session \<times> wt_block_ckpt" where
  "wt_block_ckpt_destroy s ci =
     (log_call Ckpt_destroy s, ci\<lparr>ckpt_extents := [], ckpt_valid := False\<rparr>)"

definition wt_block_ckpt_init ::
  "wt_ext \<Rightarrow> wt_session \<Rightarrow> wt_block_ckpt \<Rightarrow> string \<Rightarrow> int \<times> wt_session \<times> wt_block_ckpt" where
  "wt_block_ckpt_init x s ci nm =
     (ckpt_init_ret x, log_call (Ckpt_init nm (ckpt_init_ret x)) s,
      \<lparr>root_objectid = 0, ckpt_name = nm, ckpt_extents = [],
       ckpt_valid = (ckpt_init_ret x = 0)\<rparr>)"

subsection \<open>The source functions\<close>

text \<open>The \<^verbatim>\<open>err:\<close> label of \<^verbatim>\<open>__wt_block_tiered_newfile\<close>: free the scratch
  buffer and return \<open>ret\<close>.\<close>

definition newfile_err ::
  "int \<Rightarrow> wt_session \<Rightarrow> string option \<Rightarrow> wt_block \<Rightarrow> int \<times> wt_session \<times> wt_block" where
  "newfile_err ret s tmp b = (ret, wt_scr_free s tmp, b)"

text \<open>\<^verbatim>\<open>__wt_block_tiered_newfile\<close>. Each \<^verbatim>\<open>WT_ERR\<close> jumps to \<^verbatim>\<open>err:\<close>
  when the call returns a nonzero code.\<close>

definition wt_block_tiered_newfile ::
  "wt_ext \<Rightarrow> wt_session \<Rightarrow> wt_block \<Rightarrow> int \<times> wt_session \<times> wt_block" where
  "wt_block_tiered_newfile x s b =
     (case wt_scr_alloc x s of (ret0, s0, tmp0) \<Rightarrow>
      if ret0 \<noteq> 0 then newfile_err ret0 s0 tmp0 b else
      case wt_close x s0 (fh b) of (ret1, s1, fhp1) \<Rightarrow>
      let b1 = b\<lparr>fh := fhp1\<rparr> in
      if ret1 \<noteq> 0 then newfile_err ret1 s1 tmp0 b1 else
      let b2 = b1\<lparr>objectid := objectid b1 + 1\<rparr> in
      case wt_buf_fmt x s1 tmp0 (name b2) (objectid b2) of (ret2, s2, tmp2) \<Rightarrow>
      if ret2 \<noteq> 0 then newfile_err ret2 s2 tmp2 b2 else
      let filename = item_data tmp2 in
      case with_bucket_storage (bucket_storage s2) s2
             (\<lambda>t. wt_open x t filename WT_FS_OPEN_FILE_TYPE_DATA
                     (WT_FS_OPEN_CREATE x OR file_flags b2) (fh b2))
      of (ret3, s3, fhp3) \<Rightarrow>
      let b3 = b2\<lparr>fh := fhp3\<rparr> in
      if ret3 \<noteq> 0 then newfile_err ret3 s3 tmp2 b3 else
      case wt_desc_write x s3 (fh b3) (allocsize b3) of (ret4, s4) \<Rightarrow>
      if ret4 \<noteq> 0 then newfile_err ret4 s4 tmp2 b3 else
      let b4 = b3\<lparr>size := ucast (allocsize b3)\<rparr> in
      case wt_block_ckpt_destroy s4 (live b4) of (s5, ci5) \<Rightarrow>
      let b5 = b4\<lparr>live := ci5\<rparr> in
      case wt_block_ckpt_init x s5 (live b5) ''live'' of (ret6, s6, ci6) \<Rightarrow>
      let b6 = b5\<lparr>live := ci6\<rparr> in
      newfile_err ret6 s6 tmp2 b6)"

text \<open>\<^verbatim>\<open>__wt_block_tiered_flush\<close>. The two cookie parameters are out-parameters the
  source never writes; the model returns what they point at, after the call.\<close>

definition wt_block_tiered_flush ::
  "wt_ext \<Rightarrow> wt_session \<Rightarrow> wt_block \<Rightarrow> 8 word list option \<Rightarrow> nat
     \<Rightarrow> int \<times> wt_session \<times> wt_block \<times> 8 word list option \<times> nat" where
  "wt_block_tiered_flush x s b flush_cookie cookie_size =
     (case wt_block_tiered_newfile x s b of
        (ret, s', b') \<Rightarrow> (ret, s', b', flush_cookie, cookie_size))"

text \<open>\<^verbatim>\<open>__wt_block_tiered_load\<close>. \<^verbatim>\<open>WT_RET\<close> returns the code of the call when it
  is nonzero.\<close>

definition wt_block_tiered_load ::
  "wt_ext \<Rightarrow> wt_session \<Rightarrow> wt_block \<Rightarrow> wt_block_ckpt \<Rightarrow> int \<times> wt_session \<times> wt_block" where
  "wt_block_tiered_load x s b ci =
     (if has_objects b then
        let b0 = b\<lparr>objectid := root_objectid ci\<rparr> in
        case wt_block_tiered_newfile x s b0 of
          (ret, s', b') \<Rightarrow> if ret \<noteq> 0 then (ret, s', b') else (0, s', b')
      else (0, s, b))"

text \<open>A run of calls of \<^verbatim>\<open>__wt_block_tiered_newfile\<close> on the same handle, one
  outcome record per call: the return code and the object id after each call.\<close>

fun newfile_calls :: "wt_ext list \<Rightarrow> wt_session \<Rightarrow> wt_block \<Rightarrow> (int \<times> uint32_t) list" where
  "newfile_calls [] s b = []"
| "newfile_calls (x # xs) s b =
     (case wt_block_tiered_newfile x s b of
        (ret, s', b') \<Rightarrow> (ret, objectid b') # newfile_calls xs s' b')"

subsection \<open>Auxiliary notions for the statements\<close>

text \<open>The return code of the close step: closing with no handle open succeeds.\<close>

definition close_code :: "wt_ext \<Rightarrow> wt_block \<Rightarrow> int" where
  "close_code x b = (case fh b of None \<Rightarrow> 0 | Some h \<Rightarrow> close_ret x)"

text \<open>The handle a successful open step stores in the block.\<close>

definition opened_fh :: "wt_ext \<Rightarrow> wt_session \<Rightarrow> wt_block \<Rightarrow> wt_fh" where
  "opened_fh x s b =
     \<lparr>fh_name = fmt_filename (name b) (objectid b + 1),
      fh_file_type = WT_FS_OPEN_FILE_TYPE_DATA,
      fh_flags = WT_FS_OPEN_CREATE x OR file_flags b,
      fh_bucket = bucket_storage s\<rparr>"

text \<open>The calls one run of \<^verbatim>\<open>__wt_block_tiered_newfile\<close> added to the log.\<close>

definition new_calls :: "wt_session \<Rightarrow> wt_session \<Rightarrow> wt_call list" where
  "new_calls s s' = drop (length (io_log s)) (io_log s')"

subsection \<open>Concrete states\<close>

definition ext_ok :: wt_ext where
  "ext_ok = \<lparr>WT_FS_OPEN_CREATE = 4, scr_alloc_ret = 0, close_ret = 0, buf_fmt_ret = 0,
              open_ret = 0, desc_write_ret = 0, ckpt_init_ret = 0\<rparr>"

definition session0 :: wt_session where
  "session0 = \<lparr>bucket_storage = None, io_log = []\<rparr>"

definition ckpt0 :: wt_block_ckpt where
  "ckpt0 = \<lparr>root_objectid = 7, ckpt_name = ''live'', ckpt_extents = [(4096, 8192)],
             ckpt_valid = True\<rparr>"

definition fh0 :: wt_fh where
  "fh0 = \<lparr>fh_name = ''coll1.00000003'', fh_file_type = WT_FS_OPEN_FILE_TYPE_DATA,
           fh_flags = 4, fh_bucket = None\<rparr>"

definition block0 :: wt_block where
  "block0 = \<lparr>name = ''coll1'', objectid = 3, fh = Some fh0, allocsize = 4096,
              file_flags = 0, size = 12288, has_objects = True, live = ckpt0\<rparr>"

text \<open>The state after one successful rollover from \<open>block0\<close>.\<close>

definition fh1 :: wt_fh where
  "fh1 = \<lparr>fh_name = ''coll1.00000004'', fh_file_type = WT_FS_OPEN_FILE_TYPE_DATA,
           fh_flags = 4, fh_bucket = None\<rparr>"

definition ckpt_fresh :: wt_block_ckpt where
  "ckpt_fresh = \<lparr>root_objectid = 0, ckpt_name = ''live'', ckpt_extents = [],
                  ckpt_valid = True\<rparr>"

definition block1 :: wt_block where
  "block1 = \<lparr>name = ''coll1'', objectid = 4, fh = Some fh1, allocsize = 4096,
              file_flags = 0, size = 4096, has_objects = True, live = ckpt_fresh\<rparr>"

definition session1 :: wt_session where
  "session1 = \<lparr>bucket_storage = None,
     io_log = [Scr_alloc 0, Close (Some fh0) 0, Buf_fmt ''coll1'' 4 0,
       Open_file ''coll1.00000004'' WT_FS_OPEN_FILE_TYPE_DATA 4 None 0,
       Desc_write (Some fh1) 4096 0, Ckpt_destroy, Ckpt_init ''live'' 0, Scr_free]\<rparr>"

text \<open>An open that fails with \<^verbatim>\<open>EACCES\<close>, and the state it leaves from \<open>block0\<close>.\<close>

definition ext_open_fail :: wt_ext where
  "ext_open_fail = ext_ok\<lparr>open_ret := 13\<rparr>"

definition session_open_failed :: wt_session where
  "session_open_failed = \<lparr>bucket_storage = None,
     io_log = [Scr_alloc 0, Close (Some fh0) 0, Buf_fmt ''coll1'' 4 0,
       Open_file ''coll1.00000004'' WT_FS_OPEN_FILE_TYPE_DATA 4 None 13, Scr_free]\<rparr>"

definition block_open_failed :: wt_block where
  "block_open_failed = block0\<lparr>fh := None, objectid := 4\<rparr>"

text \<open>A close that fails with \<^verbatim>\<open>EIO\<close>, a formatting that fails with
  \<^verbatim>\<open>ENOMEM\<close>, a descriptor write that fails with \<^verbatim>\<open>ENOSPC\<close>.\<close>

definition ext_close_fail :: wt_ext where
  "ext_close_fail = ext_ok\<lparr>close_ret := 5\<rparr>"

definition ext_buf_fmt_fail :: wt_ext where
  "ext_buf_fmt_fail = ext_ok\<lparr>buf_fmt_ret := 12\<rparr>"

definition ext_desc_write_fail :: wt_ext where
  "ext_desc_write_fail = ext_ok\<lparr>desc_write_ret := 28\<rparr>"

text \<open>The handle \<open>block0\<close> two rollovers before its object id wraps around.\<close>

definition block_wrap :: wt_block where
  "block_wrap = block0\<lparr>objectid := 4294967294\<rparr>"

section \<open>Properties\<close>

subsection \<open>The outcome of a rollover, by the first step that fails\<close>

lemmas ext_defs = wt_scr_alloc_def wt_scr_free_def wt_close_def wt_buf_fmt_def item_data_def
  wt_open_def with_bucket_storage_def wt_desc_write_def wt_block_ckpt_destroy_def
  wt_block_ckpt_init_def newfile_err_def log_call_def close_code_def Let_def

lemma newfile_scr_alloc_fail:
  "scr_alloc_ret x \<noteq> 0 \<Longrightarrow>
   wt_block_tiered_newfile x s b =
     (scr_alloc_ret x, s\<lparr>io_log := io_log s @ [Scr_alloc (scr_alloc_ret x)]\<rparr>, b)"
  by (simp add: wt_block_tiered_newfile_def ext_defs)

lemma newfile_close_fail:
  "scr_alloc_ret x = 0 \<Longrightarrow> close_code x b \<noteq> 0 \<Longrightarrow>
   wt_block_tiered_newfile x s b =
     (close_code x b,
      s\<lparr>io_log := io_log s @ [Scr_alloc 0, Close (fh b) (close_code x b), Scr_free]\<rparr>,
      b\<lparr>fh := None\<rparr>)"
  by (simp add: wt_block_tiered_newfile_def ext_defs split: option.splits)

lemma newfile_buf_fmt_fail:
  "scr_alloc_ret x = 0 \<Longrightarrow> close_code x b = 0 \<Longrightarrow> buf_fmt_ret x \<noteq> 0 \<Longrightarrow>
   wt_block_tiered_newfile x s b =
     (buf_fmt_ret x,
      s\<lparr>io_log := io_log s @ [Scr_alloc 0, Close (fh b) 0,
           Buf_fmt (name b) (objectid b + 1) (buf_fmt_ret x), Scr_free]\<rparr>,
      b\<lparr>fh := None, objectid := objectid b + 1\<rparr>)"
  by (simp add: wt_block_tiered_newfile_def ext_defs split: option.splits)

lemma newfile_open_fail:
  "scr_alloc_ret x = 0 \<Longrightarrow> close_code x b = 0 \<Longrightarrow> buf_fmt_ret x = 0 \<Longrightarrow>
   open_ret x \<noteq> 0 \<Longrightarrow>
   wt_block_tiered_newfile x s b =
     (open_ret x,
      s\<lparr>io_log := io_log s @ [Scr_alloc 0, Close (fh b) 0,
           Buf_fmt (name b) (objectid b + 1) 0,
           Open_file (fmt_filename (name b) (objectid b + 1)) WT_FS_OPEN_FILE_TYPE_DATA
             (WT_FS_OPEN_CREATE x OR file_flags b) (bucket_storage s) (open_ret x),
           Scr_free]\<rparr>,
      b\<lparr>fh := None, objectid := objectid b + 1\<rparr>)"
  by (simp add: wt_block_tiered_newfile_def ext_defs split: option.splits)

lemma newfile_desc_write_fail:
  "scr_alloc_ret x = 0 \<Longrightarrow> close_code x b = 0 \<Longrightarrow> buf_fmt_ret x = 0 \<Longrightarrow>
   open_ret x = 0 \<Longrightarrow> desc_write_ret x \<noteq> 0 \<Longrightarrow>
   wt_block_tiered_newfile x s b =
     (desc_write_ret x,
      s\<lparr>io_log := io_log s @ [Scr_alloc 0, Close (fh b) 0,
           Buf_fmt (name b) (objectid b + 1) 0,
           Open_file (fmt_filename (name b) (objectid b + 1)) WT_FS_OPEN_FILE_TYPE_DATA
             (WT_FS_OPEN_CREATE x OR file_flags b) (bucket_storage s) 0,
           Desc_write (Some (opened_fh x s b)) (allocsize b) (desc_write_ret x),
           Scr_free]\<rparr>,
      b\<lparr>fh := Some (opened_fh x s b), objectid := objectid b + 1\<rparr>)"
  by (simp add: wt_block_tiered_newfile_def ext_defs opened_fh_def split: option.splits)

lemma newfile_past_desc_write:
  "scr_alloc_ret x = 0 \<Longrightarrow> close_code x b = 0 \<Longrightarrow> buf_fmt_ret x = 0 \<Longrightarrow>
   open_ret x = 0 \<Longrightarrow> desc_write_ret x = 0 \<Longrightarrow>
   wt_block_tiered_newfile x s b =
     (ckpt_init_ret x,
      s\<lparr>io_log := io_log s @ [Scr_alloc 0, Close (fh b) 0,
           Buf_fmt (name b) (objectid b + 1) 0,
           Open_file (fmt_filename (name b) (objectid b + 1)) WT_FS_OPEN_FILE_TYPE_DATA
             (WT_FS_OPEN_CREATE x OR file_flags b) (bucket_storage s) 0,
           Desc_write (Some (opened_fh x s b)) (allocsize b) 0,
           Ckpt_destroy, Ckpt_init ''live'' (ckpt_init_ret x),
           Scr_free]\<rparr>,
      b\<lparr>fh := Some (opened_fh x s b), objectid := objectid b + 1,
        size := ucast (allocsize b),
        live := \<lparr>root_objectid = 0, ckpt_name = ''live'', ckpt_extents = [],
                 ckpt_valid = (ckpt_init_ret x = 0)\<rparr>\<rparr>)"
  by (simp add: wt_block_tiered_newfile_def ext_defs opened_fh_def split: option.splits)

text \<open>The return code is that of the first failing step, so a rollover succeeds
  exactly when every step does.\<close>

lemma newfile_ret:
  "fst (wt_block_tiered_newfile x s b) =
     (if scr_alloc_ret x \<noteq> 0 then scr_alloc_ret x
      else if close_code x b \<noteq> 0 then close_code x b
      else if buf_fmt_ret x \<noteq> 0 then buf_fmt_ret x
      else if open_ret x \<noteq> 0 then open_ret x
      else if desc_write_ret x \<noteq> 0 then desc_write_ret x
      else ckpt_init_ret x)"
  by (simp add: newfile_scr_alloc_fail newfile_close_fail newfile_buf_fmt_fail
      newfile_open_fail newfile_desc_write_fail newfile_past_desc_write)

lemma newfile_success_steps:
  assumes "fst (wt_block_tiered_newfile x s b) = 0"
  shows "scr_alloc_ret x = 0" "close_code x b = 0" "buf_fmt_ret x = 0" "open_ret x = 0"
    "desc_write_ret x = 0" "ckpt_init_ret x = 0"
  using assms unfolding newfile_ret by (simp_all split: if_splits)

lemma newfile_success:
  assumes "wt_block_tiered_newfile x s b = (0, s', b')"
  shows "s' = s\<lparr>io_log := io_log s @ [Scr_alloc 0, Close (fh b) 0,
           Buf_fmt (name b) (objectid b + 1) 0,
           Open_file (fmt_filename (name b) (objectid b + 1)) WT_FS_OPEN_FILE_TYPE_DATA
             (WT_FS_OPEN_CREATE x OR file_flags b) (bucket_storage s) 0,
           Desc_write (Some (opened_fh x s b)) (allocsize b) 0,
           Ckpt_destroy, Ckpt_init ''live'' 0, Scr_free]\<rparr>"
    and "b' = b\<lparr>fh := Some (opened_fh x s b), objectid := objectid b + 1,
           size := ucast (allocsize b),
           live := \<lparr>root_objectid = 0, ckpt_name = ''live'', ckpt_extents = [],
                    ckpt_valid = True\<rparr>\<rparr>"
proof -
  from assms have "fst (wt_block_tiered_newfile x s b) = 0" by simp
  note ok = newfile_success_steps [OF this]
  from assms show "s' = s\<lparr>io_log := io_log s @ [Scr_alloc 0, Close (fh b) 0,
           Buf_fmt (name b) (objectid b + 1) 0,
           Open_file (fmt_filename (name b) (objectid b + 1)) WT_FS_OPEN_FILE_TYPE_DATA
             (WT_FS_OPEN_CREATE x OR file_flags b) (bucket_storage s) 0,
           Desc_write (Some (opened_fh x s b)) (allocsize b) 0,
           Ckpt_destroy, Ckpt_init ''live'' 0, Scr_free]\<rparr>"
    by (simp add: newfile_past_desc_write [OF ok(1-5)] ok(6))
  from assms show "b' = b\<lparr>fh := Some (opened_fh x s b), objectid := objectid b + 1,
           size := ucast (allocsize b),
           live := \<lparr>root_objectid = 0, ckpt_name = ''live'', ckpt_extents = [],
                    ckpt_valid = True\<rparr>\<rparr>"
    by (simp add: newfile_past_desc_write [OF ok(1-5)] ok(6))
qed

lemma newfile_all_ok:
  assumes "scr_alloc_ret x = 0" "close_code x b = 0" "buf_fmt_ret x = 0" "open_ret x = 0"
    "desc_write_ret x = 0" "ckpt_init_ret x = 0"
  shows "fst (wt_block_tiered_newfile x s b) = 0"
  using assms by (simp add: newfile_ret)

subsection \<open>The decimal rendering\<close>

lemma digit_val_digit_char: "digit_val (digit_char d) = d mod 10"
proof -
  have "digit_val (''0123456789'' ! k) = k" if "k < 10" for k
  proof -
    from that have "k \<in> set [0..<10]" by simp
    then have "k \<in> {0, 1, 2, 3, 4, 5, 6, 7, 8, 9}"
      by (simp add: upt_conv_Cons_Cons [symmetric] upt_rec numeral_nat)
    then show ?thesis
      by (auto simp add: digit_val_def)
  qed
  then show ?thesis
    by (simp add: digit_char_def)
qed

lemma digit_char_in_digits: "digit_char d \<in> set ''0123456789''"
  unfolding digit_char_def by (rule nth_mem) simp

lemma dec_value_snoc: "dec_value (cs @ [c]) = 10 * dec_value cs + digit_val c"
  by (simp add: dec_value_def)

lemma dec_value_dec_digits: "dec_value (dec_digits n) = n"
proof (induction n rule: dec_digits.induct)
  case (1 n)
  show ?case
  proof (cases "n < 10")
    case True
    then show ?thesis
      by (simp add: dec_digits.simps [of n] dec_value_def digit_val_digit_char)
  next
    case False
    with 1 have "dec_value (dec_digits (n div 10)) = n div 10" by simp
    with False show ?thesis
      by (simp add: dec_digits.simps [of n] dec_value_snoc digit_val_digit_char)
  qed
qed

lemma dec_value_zeros: "dec_value (replicate k (CHR ''0'') @ cs) = dec_value cs"
  unfolding dec_value_def by (induction k) (simp_all add: digit_val_def)

lemma dec_value_fmt_08u: "dec_value (fmt_08u v) = unat v"
  by (simp add: fmt_08u_def Let_def dec_value_zeros dec_value_dec_digits)

lemma length_dec_digits_pos: "0 < length (dec_digits n)"
  by (subst dec_digits.simps) simp

lemma length_dec_digits_le: "0 < k \<Longrightarrow> n < 10 ^ k \<Longrightarrow> length (dec_digits n) \<le> k"
proof (induction n arbitrary: k rule: dec_digits.induct)
  case (1 n)
  show ?case
  proof (cases "n < 10")
    case True
    with 1(2) show ?thesis
      by (simp add: dec_digits.simps [of n] Suc_leI)
  next
    case False
    with 1(2,3) obtain j where k: "k = Suc j" and j: "0 < j"
      by (cases k; cases "k - 1") auto
    from 1(3) k have "n div 10 < 10 ^ j"
      by (simp add: less_mult_imp_div_less mult.commute)
    with 1(1) [OF False j] have "length (dec_digits (n div 10)) \<le> j" .
    with False k show ?thesis
      by (simp add: dec_digits.simps [of n])
  qed
qed

lemma length_dec_digits_ge: "10 ^ k \<le> n \<Longrightarrow> k < length (dec_digits n)"
proof (induction n arbitrary: k rule: dec_digits.induct)
  case (1 n)
  show ?case
  proof (cases "n < 10")
    case True
    with 1(2) have "(10::nat) ^ k < 10 ^ 1" by simp
    then have "k < 1" by (simp only: power_strict_increasing_iff)
    with length_dec_digits_pos [of n] show ?thesis by simp
  next
    case False
    show ?thesis
    proof (cases k)
      case 0
      with length_dec_digits_pos [of n] show ?thesis by simp
    next
      case (Suc j)
      with 1(2) have "10 ^ j \<le> n div 10"
        by (simp add: less_eq_div_iff_mult_less_eq mult.commute)
      with 1(1) [OF False] have "j < length (dec_digits (n div 10))" .
      with False Suc show ?thesis
        by (simp add: dec_digits.simps [of n])
    qed
  qed
qed

lemma length_fmt_08u_ge: "8 \<le> length (fmt_08u v)"
  by (simp add: fmt_08u_def Let_def)

lemma length_fmt_08u: "unat v < 10 ^ 8 \<Longrightarrow> length (fmt_08u v) = 8"
  using length_dec_digits_le [of 8 "unat v"] by (simp add: fmt_08u_def Let_def)

lemma length_fmt_08u_large: "10 ^ 8 \<le> unat v \<Longrightarrow> 8 < length (fmt_08u v)"
  using length_dec_digits_ge [of 8 "unat v"] by (simp add: fmt_08u_def Let_def)

lemma set_dec_digits: "set (dec_digits n) \<subseteq> set ''0123456789''"
proof (induction n rule: dec_digits.induct)
  case (1 n)
  show ?case
  proof (cases "n < 10")
    case True
    with digit_char_in_digits [of n] show ?thesis
      by (simp add: dec_digits.simps [of n])
  next
    case False
    with 1 digit_char_in_digits [of "n mod 10"] show ?thesis
      by (simp add: dec_digits.simps [of n])
  qed
qed

lemma set_fmt_08u: "set (fmt_08u v) \<subseteq> set ''0123456789''"
  using set_dec_digits [of "unat v"] by (auto simp add: fmt_08u_def Let_def)

text \<open>Unfolding the padding on a literal width.\<close>

lemma zero_padding_numeral:
  "replicate (numeral k) (CHR ''0'') @ ds = CHR ''0'' # replicate (pred_numeral k) (CHR ''0'') @ ds"
  by (simp add: numeral_eq_Suc)

lemmas fmt_eval = fmt_filename_def fmt_08u_def dec_digits.simps digit_char_def zero_padding_numeral

lemmas state_eval = ext_ok_def session0_def ckpt0_def fh0_def block0_def close_code_def
  opened_fh_def new_calls_def fh1_def ckpt_fresh_def block1_def session1_def

subsection \<open>Scenario A: rolling \<open>coll1\<close> over from object 3\<close>

lemma fmt_filename_example: "fmt_filename ''coll1'' 4 = ''coll1.00000004''"
  by (simp add: fmt_eval)

lemma newfile_example:
  "wt_block_tiered_newfile ext_ok session0 block0 = (0, session1, block1)"
proof -
  have "fst (wt_block_tiered_newfile ext_ok session0 block0) = 0"
    by (rule newfile_all_ok) (simp_all add: state_eval)
  then obtain s' b' where e: "wt_block_tiered_newfile ext_ok session0 block0 = (0, s', b')"
    by (cases "wt_block_tiered_newfile ext_ok session0 block0") simp
  from newfile_success [OF e] have "s' = session1" "b' = block1"
    by (simp_all add: state_eval fmt_filename_example)
  with e show ?thesis by simp
qed

subsection \<open>Loading without tiering\<close>

text \<open>
  Claim C8. For every handle with \<open>has_objects = False\<close> and every checkpoint,
  \<^verbatim>\<open>__wt_block_tiered_load\<close> returns success (0) and leaves the whole handle, so its
  object id and its file handle, and the session with its call log unchanged, whatever
  the rest of the engine would have answered.
\<close>

theorem load_without_objects_is_noop:
  "\<not> has_objects b \<Longrightarrow> wt_block_tiered_load x s b ci = (0, s, b)"
  by (simp add: wt_block_tiered_load_def)

theorem load_without_objects_is_noop_witness:
  "\<not> has_objects (block0\<lparr>has_objects := False\<rparr>) \<and>
   wt_block_tiered_load (ext_ok\<lparr>open_ret := 13\<rparr>) session0
       (block0\<lparr>has_objects := False\<rparr>) ckpt0 =
     (0, session0, block0\<lparr>has_objects := False\<rparr>)"
  using load_without_objects_is_noop
    [of "block0\<lparr>has_objects := False\<rparr>" "ext_ok\<lparr>open_ret := 13\<rparr>" session0 ckpt0]
  by simp

subsection \<open>Size after a rollover\<close>

text \<open>The assignment \<^verbatim>\<open>block->size = block->allocsize\<close> widens an unsigned 32-bit
  value to a signed 64-bit one; the value is preserved.\<close>

lemma sint_ucast_32_64: "sint (ucast (w :: 32 word) :: 64 word) = uint w"
proof -
  have eq: "uint (ucast w :: 64 word) = uint w"
    by (simp add: uint_up_ucast is_up)
  have "uint w < 2 ^ 32"
    using uint_bounded [of w] by simp
  then have "uint w < 2 ^ 63"
    by simp
  moreover have "- (2 ^ 63) \<le> uint w"
  proof -
    have "(0::int) \<le> uint w" by simp
    moreover have "- (2 ^ 63) \<le> (0::int)" by simp
    ultimately show ?thesis by (rule order_trans [rotated])
  qed
  ultimately have "signed_take_bit 63 (uint w) = uint w"
    by (rule signed_take_bit_int_eq_self [rotated])
  with eq show ?thesis
    by (simp add: sint_uint)
qed

text \<open>
  Claim C7. After every successful \<^verbatim>\<open>__wt_block_tiered_newfile\<close> the handle's
  \<open>size\<close> equals its allocation size exactly: the descriptor of \<open>allocsize\<close> bytes
  has been written into the handle's new file (the call is in the log with return
  code 0), and the allocation size itself is unchanged.
\<close>

theorem newfile_size_is_allocsize:
  assumes "wt_block_tiered_newfile x s b = (0, s', b')"
  shows "size b' = ucast (allocsize b) \<and> sint (size b') = uint (allocsize b) \<and>
    allocsize b' = allocsize b \<and>
    Desc_write (fh b') (allocsize b) 0 \<in> set (new_calls s s')"
  using newfile_success [OF assms]
  by (simp add: new_calls_def sint_ucast_32_64)

theorem newfile_size_is_allocsize_witness:
  "wt_block_tiered_newfile ext_ok session0 block0 = (0, session1, block1) \<and>
   size block0 = 12288 \<and> allocsize block0 = 4096 \<and> size block1 = 4096 \<and>
   sint (size block1) = 4096 \<and> allocsize block1 = 4096 \<and>
   Desc_write (Some fh1) 4096 0 \<in> set (new_calls session0 session1)"
  using newfile_size_is_allocsize [OF newfile_example] newfile_example
  by (simp add: state_eval)

subsection \<open>Loading with tiering\<close>

lemma load_with_objects:
  "has_objects b \<Longrightarrow>
   wt_block_tiered_load x s b ci =
     wt_block_tiered_newfile x s (b\<lparr>objectid := root_objectid ci\<rparr>)"
  by (simp add: wt_block_tiered_load_def Let_def split: prod.splits)

text \<open>
  Claim C3. For every handle with \<open>has_objects = True\<close> and every checkpoint with root
  object id \<open>r\<close>, a successful \<^verbatim>\<open>__wt_block_tiered_load\<close> is the rollover of the
  handle seeded with object id \<open>r\<close>: it leaves the object id equal to \<open>r + 1\<close> (in
  the 32-bit unsigned arithmetic of the field) and the handle open on the newly created
  object \<open>name.(r+1)\<close>, the old handle closed and the descriptor written.
\<close>

theorem load_reseeds_then_rolls:
  assumes "has_objects b" and "wt_block_tiered_load x s b ci = (0, s', b')"
  shows "wt_block_tiered_newfile x s (b\<lparr>objectid := root_objectid ci\<rparr>) = (0, s', b') \<and>
    objectid b' = root_objectid ci + 1 \<and>
    fh b' = Some \<lparr>fh_name = fmt_filename (name b) (root_objectid ci + 1),
                   fh_file_type = WT_FS_OPEN_FILE_TYPE_DATA,
                   fh_flags = WT_FS_OPEN_CREATE x OR file_flags b,
                   fh_bucket = bucket_storage s\<rparr> \<and>
    new_calls s s' =
      [Scr_alloc 0, Close (fh b) 0, Buf_fmt (name b) (root_objectid ci + 1) 0,
       Open_file (fmt_filename (name b) (root_objectid ci + 1)) WT_FS_OPEN_FILE_TYPE_DATA
         (WT_FS_OPEN_CREATE x OR file_flags b) (bucket_storage s) 0,
       Desc_write (fh b') (allocsize b) 0, Ckpt_destroy, Ckpt_init ''live'' 0, Scr_free]"
proof -
  from assms have e: "wt_block_tiered_newfile x s (b\<lparr>objectid := root_objectid ci\<rparr>) = (0, s', b')"
    by (simp add: load_with_objects)
  from newfile_success [OF e] e show ?thesis
    by (simp add: new_calls_def opened_fh_def)
qed

lemma fmt_filename_example_8: "fmt_filename ''coll1'' 8 = ''coll1.00000008''"
  by (simp add: fmt_eval)

theorem load_reseeds_then_rolls_witness:
  "has_objects block0 \<and> root_objectid ckpt0 = 7 \<and> objectid block0 = 3 \<and>
   fst (wt_block_tiered_load ext_ok session0 block0 ckpt0) = 0 \<and>
   objectid (snd (snd (wt_block_tiered_load ext_ok session0 block0 ckpt0))) = 8 \<and>
   fh (snd (snd (wt_block_tiered_load ext_ok session0 block0 ckpt0))) =
     Some \<lparr>fh_name = ''coll1.00000008'', fh_file_type = WT_FS_OPEN_FILE_TYPE_DATA,
            fh_flags = 4, fh_bucket = None\<rparr>"
proof -
  have h: "has_objects block0"
    by (simp add: state_eval)
  have "fst (wt_block_tiered_newfile ext_ok session0 (block0\<lparr>objectid := root_objectid ckpt0\<rparr>)) = 0"
    by (rule newfile_all_ok) (simp_all add: state_eval)
  with h have r: "fst (wt_block_tiered_load ext_ok session0 block0 ckpt0) = 0"
    by (simp add: load_with_objects)
  then have e: "wt_block_tiered_load ext_ok session0 block0 ckpt0 =
      (0, fst (snd (wt_block_tiered_load ext_ok session0 block0 ckpt0)),
       snd (snd (wt_block_tiered_load ext_ok session0 block0 ckpt0)))"
    by (simp add: prod_eq_iff)
  from load_reseeds_then_rolls [OF h e] h r show ?thesis
    by (simp add: state_eval fmt_filename_example_8)
qed

subsection \<open>Rollover on a handle without tiering\<close>

lemma newfile_has_objects_irrelevant:
  "wt_block_tiered_newfile x s (b\<lparr>has_objects := h\<rparr>) =
     (case wt_block_tiered_newfile x s b of (ret, s', b') \<Rightarrow> (ret, s', b'\<lparr>has_objects := h\<rparr>))"
  by (simp add: wt_block_tiered_newfile_def ext_defs split: option.splits)

text \<open>
  Claim C1, as amended. \<^verbatim>\<open>__wt_block_tiered_flush\<close> and
  \<^verbatim>\<open>__wt_block_tiered_newfile\<close> never read \<open>has_objects\<close>: on a handle with
  \<open>has_objects = False\<close> they do exactly what they do on the same handle with the flag
  set, and leave the flag as it is. So a successful call increments the object id by
  one, closes the old file handle, opens the next object file and writes its
  descriptor. Only \<^verbatim>\<open>__wt_block_tiered_load\<close> tests the flag.
\<close>

theorem newfile_ignores_has_objects:
  assumes "\<not> has_objects b"
  shows "wt_block_tiered_newfile x s b =
      (case wt_block_tiered_newfile x s (b\<lparr>has_objects := True\<rparr>) of
         (ret, s', b') \<Rightarrow> (ret, s', b'\<lparr>has_objects := False\<rparr>)) \<and>
    wt_block_tiered_flush x s b flush_cookie cookie_size =
      (case wt_block_tiered_flush x s (b\<lparr>has_objects := True\<rparr>) flush_cookie cookie_size of
         (ret, s', b', c) \<Rightarrow> (ret, s', b'\<lparr>has_objects := False\<rparr>, c)) \<and>
    (\<forall>s' b'. wt_block_tiered_newfile x s b = (0, s', b') \<longrightarrow>
       objectid b' = objectid b + 1 \<and>
       fh b' = Some \<lparr>fh_name = fmt_filename (name b) (objectid b + 1),
                      fh_file_type = WT_FS_OPEN_FILE_TYPE_DATA,
                      fh_flags = WT_FS_OPEN_CREATE x OR file_flags b,
                      fh_bucket = bucket_storage s\<rparr> \<and>
       \<not> has_objects b' \<and>
       new_calls s s' =
         [Scr_alloc 0, Close (fh b) 0, Buf_fmt (name b) (objectid b + 1) 0,
          Open_file (fmt_filename (name b) (objectid b + 1)) WT_FS_OPEN_FILE_TYPE_DATA
            (WT_FS_OPEN_CREATE x OR file_flags b) (bucket_storage s) 0,
          Desc_write (fh b') (allocsize b) 0, Ckpt_destroy, Ckpt_init ''live'' 0, Scr_free]) \<and>
    (\<forall>s' b' c n.
       wt_block_tiered_flush x s b flush_cookie cookie_size = (0, s', b', c, n) \<longrightarrow>
       objectid b' = objectid b + 1 \<and>
       fh b' = Some \<lparr>fh_name = fmt_filename (name b) (objectid b + 1),
                      fh_file_type = WT_FS_OPEN_FILE_TYPE_DATA,
                      fh_flags = WT_FS_OPEN_CREATE x OR file_flags b,
                      fh_bucket = bucket_storage s\<rparr> \<and>
       \<not> has_objects b' \<and>
       new_calls s s' =
         [Scr_alloc 0, Close (fh b) 0, Buf_fmt (name b) (objectid b + 1) 0,
          Open_file (fmt_filename (name b) (objectid b + 1)) WT_FS_OPEN_FILE_TYPE_DATA
            (WT_FS_OPEN_CREATE x OR file_flags b) (bucket_storage s) 0,
          Desc_write (fh b') (allocsize b) 0, Ckpt_destroy, Ckpt_init ''live'' 0, Scr_free])"
proof -
  from assms have b: "b = (b\<lparr>has_objects := True\<rparr>)\<lparr>has_objects := False\<rparr>"
    by simp
  have 1: "wt_block_tiered_newfile x s b =
      (case wt_block_tiered_newfile x s (b\<lparr>has_objects := True\<rparr>) of
         (ret, s', b') \<Rightarrow> (ret, s', b'\<lparr>has_objects := False\<rparr>))"
    by (subst b) (rule newfile_has_objects_irrelevant)
  then have 2: "wt_block_tiered_flush x s b flush_cookie cookie_size =
      (case wt_block_tiered_flush x s (b\<lparr>has_objects := True\<rparr>) flush_cookie cookie_size of
         (ret, s', b', c) \<Rightarrow> (ret, s', b'\<lparr>has_objects := False\<rparr>, c))"
    by (simp add: wt_block_tiered_flush_def split: prod.splits)
  have 3: "objectid b' = objectid b + 1 \<and>
       fh b' = Some \<lparr>fh_name = fmt_filename (name b) (objectid b + 1),
                      fh_file_type = WT_FS_OPEN_FILE_TYPE_DATA,
                      fh_flags = WT_FS_OPEN_CREATE x OR file_flags b,
                      fh_bucket = bucket_storage s\<rparr> \<and>
       \<not> has_objects b' \<and>
       new_calls s s' =
         [Scr_alloc 0, Close (fh b) 0, Buf_fmt (name b) (objectid b + 1) 0,
          Open_file (fmt_filename (name b) (objectid b + 1)) WT_FS_OPEN_FILE_TYPE_DATA
            (WT_FS_OPEN_CREATE x OR file_flags b) (bucket_storage s) 0,
          Desc_write (fh b') (allocsize b) 0, Ckpt_destroy, Ckpt_init ''live'' 0, Scr_free]"
    if "wt_block_tiered_newfile x s b = (0, s', b')" for s' b'
    using newfile_success [OF that] assms by (simp add: new_calls_def opened_fh_def)
  have 4: "objectid b' = objectid b + 1 \<and>
       fh b' = Some \<lparr>fh_name = fmt_filename (name b) (objectid b + 1),
                      fh_file_type = WT_FS_OPEN_FILE_TYPE_DATA,
                      fh_flags = WT_FS_OPEN_CREATE x OR file_flags b,
                      fh_bucket = bucket_storage s\<rparr> \<and>
       \<not> has_objects b' \<and>
       new_calls s s' =
         [Scr_alloc 0, Close (fh b) 0, Buf_fmt (name b) (objectid b + 1) 0,
          Open_file (fmt_filename (name b) (objectid b + 1)) WT_FS_OPEN_FILE_TYPE_DATA
            (WT_FS_OPEN_CREATE x OR file_flags b) (bucket_storage s) 0,
          Desc_write (fh b') (allocsize b) 0, Ckpt_destroy, Ckpt_init ''live'' 0, Scr_free]"
    if "wt_block_tiered_flush x s b flush_cookie cookie_size = (0, s', b', c, n)" for s' b' c n
  proof -
    from that have "wt_block_tiered_newfile x s b = (0, s', b')"
      by (simp add: wt_block_tiered_flush_def split: prod.splits)
    then show ?thesis by (rule 3)
  qed
  from 1 2 3 4 show ?thesis by blast
qed

lemma newfile_example_no_objects:
  "wt_block_tiered_newfile ext_ok session0 (block0\<lparr>has_objects := False\<rparr>) =
     (0, session1, block1\<lparr>has_objects := False\<rparr>)"
  by (simp add: newfile_has_objects_irrelevant newfile_example)

theorem newfile_ignores_has_objects_witness:
  "\<not> has_objects (block0\<lparr>has_objects := False\<rparr>) \<and>
   wt_block_tiered_newfile ext_ok session0 (block0\<lparr>has_objects := False\<rparr>) =
     (0, session1, block1\<lparr>has_objects := False\<rparr>) \<and>
   wt_block_tiered_newfile ext_ok session0 (block0\<lparr>has_objects := False, has_objects := True\<rparr>) =
     (0, session1, block1) \<and>
   wt_block_tiered_flush ext_ok session0 (block0\<lparr>has_objects := False\<rparr>) None 0 =
     (0, session1, block1\<lparr>has_objects := False\<rparr>, None, 0) \<and>
   objectid (block1\<lparr>has_objects := False\<rparr>) = objectid (block0\<lparr>has_objects := False\<rparr>) + 1 \<and>
   fh (block1\<lparr>has_objects := False\<rparr>) = Some fh1"
proof -
  have f: "wt_block_tiered_flush ext_ok session0 (block0\<lparr>has_objects := False\<rparr>) None 0 =
     (0, session1, block1\<lparr>has_objects := False\<rparr>, None, 0)"
    by (simp add: wt_block_tiered_flush_def newfile_example_no_objects)
  have n: "\<not> has_objects (block0\<lparr>has_objects := False\<rparr>)"
    by simp
  from newfile_ignores_has_objects [OF n, of ext_ok session0 None 0] f
  have "objectid (block1\<lparr>has_objects := False\<rparr>) =
      objectid (block0\<lparr>has_objects := False\<rparr>) + 1 \<and>
    fh (block1\<lparr>has_objects := False\<rparr>) =
      Some \<lparr>fh_name = fmt_filename (name (block0\<lparr>has_objects := False\<rparr>))
                        (objectid (block0\<lparr>has_objects := False\<rparr>) + 1),
             fh_file_type = WT_FS_OPEN_FILE_TYPE_DATA,
             fh_flags = WT_FS_OPEN_CREATE ext_ok OR file_flags (block0\<lparr>has_objects := False\<rparr>),
             fh_bucket = bucket_storage session0\<rparr>"
    by blast
  then have "objectid (block1\<lparr>has_objects := False\<rparr>) =
      objectid (block0\<lparr>has_objects := False\<rparr>) + 1 \<and>
    fh (block1\<lparr>has_objects := False\<rparr>) = Some fh1"
    by (simp add: state_eval)
  moreover have "wt_block_tiered_newfile ext_ok session0
      (block0\<lparr>has_objects := False, has_objects := True\<rparr>) = (0, session1, block1)"
    using newfile_example by (simp add: block0_def)
  ultimately show ?thesis
    using n f newfile_example_no_objects by simp
qed

text \<open>
  Claim C1 as stated fails: on \<open>coll1\<close> at object 3 with \<open>has_objects = False\<close>,
  both functions return success having moved the handle to object 4, replaced the file
  handle, created \<open>coll1.00000004\<close> and written its descriptor.
\<close>

theorem no_objects_rollover_counterexample:
  "has_objects (block0\<lparr>has_objects := False\<rparr>) = False \<and>
   wt_block_tiered_newfile ext_ok session0 (block0\<lparr>has_objects := False\<rparr>) =
     (0, session1, block1\<lparr>has_objects := False\<rparr>) \<and>
   wt_block_tiered_flush ext_ok session0 (block0\<lparr>has_objects := False\<rparr>) None 0 =
     (0, session1, block1\<lparr>has_objects := False\<rparr>, None, 0) \<and>
   objectid (block0\<lparr>has_objects := False\<rparr>) = 3 \<and>
   objectid (block1\<lparr>has_objects := False\<rparr>) = 4 \<and>
   fh (block0\<lparr>has_objects := False\<rparr>) = Some fh0 \<and>
   fh (block1\<lparr>has_objects := False\<rparr>) = Some fh1 \<and> fh1 \<noteq> fh0 \<and>
   io_log session0 = [] \<and>
   io_log session1 =
     [Scr_alloc 0, Close (Some fh0) 0, Buf_fmt ''coll1'' 4 0,
      Open_file ''coll1.00000004'' WT_FS_OPEN_FILE_TYPE_DATA 4 None 0,
      Desc_write (Some fh1) 4096 0, Ckpt_destroy, Ckpt_init ''live'' 0, Scr_free]"
proof -
  have f: "wt_block_tiered_flush ext_ok session0 (block0\<lparr>has_objects := False\<rparr>) None 0 =
     (0, session1, block1\<lparr>has_objects := False\<rparr>, None, 0)"
    by (simp add: wt_block_tiered_flush_def newfile_example_no_objects)
  have "objectid (block0\<lparr>has_objects := False\<rparr>) = 3 \<and>
   objectid (block1\<lparr>has_objects := False\<rparr>) = 4 \<and>
   fh (block0\<lparr>has_objects := False\<rparr>) = Some fh0 \<and>
   fh (block1\<lparr>has_objects := False\<rparr>) = Some fh1 \<and> fh1 \<noteq> fh0 \<and>
   io_log session0 = [] \<and>
   io_log session1 =
     [Scr_alloc 0, Close (Some fh0) 0, Buf_fmt ''coll1'' 4 0,
      Open_file ''coll1.00000004'' WT_FS_OPEN_FILE_TYPE_DATA 4 None 0,
      Desc_write (Some fh1) 4096 0, Ckpt_destroy, Ckpt_init ''live'' 0, Scr_free]"
    by (simp add: state_eval)
  with f newfile_example_no_objects show ?thesis
    by simp
qed

subsection \<open>Retry after a failed open\<close>

text \<open>
  Claim C4. If \<^verbatim>\<open>__wt_block_tiered_newfile\<close> fails at the open step, it returns the
  code of the open, having incremented the object id and left the handle without a
  file. The increment is not rolled back: any retry on the same handle that succeeds
  ends one above the id the failed attempt left, that is two above the id before the
  failed attempt, and opens the file of that id. Such a retry succeeds exactly when
  each of its steps does; its close step has nothing to close.
\<close>

theorem newfile_retry_after_open_failure:
  assumes "scr_alloc_ret x = 0" "close_code x b = 0" "buf_fmt_ret x = 0" "open_ret x \<noteq> 0"
    and "wt_block_tiered_newfile x s b = (ret, s1, b1)"
  shows "ret = open_ret x \<and> objectid b1 = objectid b + 1 \<and> fh b1 = None \<and>
    (\<forall>x2 s2 b2. wt_block_tiered_newfile x2 s1 b1 = (0, s2, b2) \<longrightarrow>
       objectid b2 = objectid b1 + 1 \<and> objectid b2 = objectid b + 2 \<and>
       fh b2 = Some \<lparr>fh_name = fmt_filename (name b) (objectid b + 2),
                      fh_file_type = WT_FS_OPEN_FILE_TYPE_DATA,
                      fh_flags = WT_FS_OPEN_CREATE x2 OR file_flags b,
                      fh_bucket = bucket_storage s\<rparr>) \<and>
    (\<forall>x2. (fst (wt_block_tiered_newfile x2 s1 b1) = 0) =
       (scr_alloc_ret x2 = 0 \<and> buf_fmt_ret x2 = 0 \<and> open_ret x2 = 0 \<and>
        desc_write_ret x2 = 0 \<and> ckpt_init_ret x2 = 0))"
proof -
  from assms(5) newfile_open_fail [OF assms(1-4), of s]
  have r: "ret = open_ret x"
    and s1: "s1 = s\<lparr>io_log := io_log s @ [Scr_alloc 0, Close (fh b) 0,
           Buf_fmt (name b) (objectid b + 1) 0,
           Open_file (fmt_filename (name b) (objectid b + 1)) WT_FS_OPEN_FILE_TYPE_DATA
             (WT_FS_OPEN_CREATE x OR file_flags b) (bucket_storage s) (open_ret x),
           Scr_free]\<rparr>"
    and b1: "b1 = b\<lparr>fh := None, objectid := objectid b + 1\<rparr>"
    by auto
  have nb: "name b1 = name b" "file_flags b1 = file_flags b" "bucket_storage s1 = bucket_storage s"
    by (simp_all add: s1 b1)
  have two: "objectid b1 + 1 = objectid b + 2"
    by (simp add: b1)
  have retry: "objectid b2 = objectid b1 + 1 \<and> objectid b2 = objectid b + 2 \<and>
       fh b2 = Some \<lparr>fh_name = fmt_filename (name b) (objectid b + 2),
                      fh_file_type = WT_FS_OPEN_FILE_TYPE_DATA,
                      fh_flags = WT_FS_OPEN_CREATE x2 OR file_flags b,
                      fh_bucket = bucket_storage s\<rparr>"
    if "wt_block_tiered_newfile x2 s1 b1 = (0, s2, b2)" for x2 s2 b2
  proof -
    from newfile_success(2) [OF that]
    have o: "objectid b2 = objectid b1 + 1" and f: "fh b2 = Some (opened_fh x2 s1 b1)"
      by simp_all
    from f have "fh b2 = Some \<lparr>fh_name = fmt_filename (name b1) (objectid b1 + 1),
                      fh_file_type = WT_FS_OPEN_FILE_TYPE_DATA,
                      fh_flags = WT_FS_OPEN_CREATE x2 OR file_flags b1,
                      fh_bucket = bucket_storage s1\<rparr>"
      by (simp only: opened_fh_def)
    then have "fh b2 = Some \<lparr>fh_name = fmt_filename (name b) (objectid b + 2),
                      fh_file_type = WT_FS_OPEN_FILE_TYPE_DATA,
                      fh_flags = WT_FS_OPEN_CREATE x2 OR file_flags b,
                      fh_bucket = bucket_storage s\<rparr>"
      by (simp only: nb two)
    with o two show ?thesis
      by simp
  qed
  have possible: "(fst (wt_block_tiered_newfile x2 s1 b1) = 0) =
       (scr_alloc_ret x2 = 0 \<and> buf_fmt_ret x2 = 0 \<and> open_ret x2 = 0 \<and>
        desc_write_ret x2 = 0 \<and> ckpt_init_ret x2 = 0)" for x2
    by (simp add: newfile_ret b1 close_code_def)
  from r b1 have first: "ret = open_ret x \<and> objectid b1 = objectid b + 1 \<and> fh b1 = None"
    by simp
  from first retry possible show ?thesis
    by blast
qed

lemma newfile_example_open_fail:
  "wt_block_tiered_newfile ext_open_fail session0 block0 =
     (13, session_open_failed, block_open_failed)"
proof -
  have "wt_block_tiered_newfile ext_open_fail session0 block0 =
     (open_ret ext_open_fail,
      session0\<lparr>io_log := io_log session0 @ [Scr_alloc 0, Close (fh block0) 0,
           Buf_fmt (name block0) (objectid block0 + 1) 0,
           Open_file (fmt_filename (name block0) (objectid block0 + 1)) WT_FS_OPEN_FILE_TYPE_DATA
             (WT_FS_OPEN_CREATE ext_open_fail OR file_flags block0) (bucket_storage session0)
             (open_ret ext_open_fail),
           Scr_free]\<rparr>,
      block0\<lparr>fh := None, objectid := objectid block0 + 1\<rparr>)"
    by (rule newfile_open_fail) (simp_all add: ext_open_fail_def state_eval)
  then show ?thesis
    by (simp add: ext_open_fail_def session_open_failed_def block_open_failed_def state_eval
        fmt_filename_example)
qed

lemma fmt_filename_example_5: "fmt_filename ''coll1'' 5 = ''coll1.00000005''"
  by (simp add: fmt_eval)

theorem newfile_retry_after_open_failure_witness:
  "scr_alloc_ret ext_open_fail = 0 \<and> close_code ext_open_fail block0 = 0 \<and>
   buf_fmt_ret ext_open_fail = 0 \<and> open_ret ext_open_fail = 13 \<and>
   wt_block_tiered_newfile ext_open_fail session0 block0 =
     (13, session_open_failed, block_open_failed) \<and>
   objectid block0 = 3 \<and> objectid block_open_failed = 4 \<and> fh block_open_failed = None \<and>
   fst (wt_block_tiered_newfile ext_ok session_open_failed block_open_failed) = 0 \<and>
   objectid (snd (snd (wt_block_tiered_newfile ext_ok session_open_failed block_open_failed))) = 5 \<and>
   fh (snd (snd (wt_block_tiered_newfile ext_ok session_open_failed block_open_failed))) =
     Some \<lparr>fh_name = ''coll1.00000005'', fh_file_type = WT_FS_OPEN_FILE_TYPE_DATA,
            fh_flags = 4, fh_bucket = None\<rparr>"
proof -
  have h: "scr_alloc_ret ext_open_fail = 0" "close_code ext_open_fail block0 = 0"
    "buf_fmt_ret ext_open_fail = 0" "open_ret ext_open_fail \<noteq> 0"
    by (simp_all add: ext_open_fail_def state_eval)
  note t = newfile_retry_after_open_failure [OF h newfile_example_open_fail]
  from t have ok: "fst (wt_block_tiered_newfile ext_ok session_open_failed block_open_failed) = 0"
    by (simp add: ext_ok_def)
  then have e: "wt_block_tiered_newfile ext_ok session_open_failed block_open_failed =
      (0, fst (snd (wt_block_tiered_newfile ext_ok session_open_failed block_open_failed)),
       snd (snd (wt_block_tiered_newfile ext_ok session_open_failed block_open_failed)))"
    by (simp add: prod_eq_iff)
  from t e have "objectid (snd (snd (wt_block_tiered_newfile ext_ok session_open_failed block_open_failed))) =
      objectid block0 + 2 \<and>
    fh (snd (snd (wt_block_tiered_newfile ext_ok session_open_failed block_open_failed))) =
      Some \<lparr>fh_name = fmt_filename (name block0) (objectid block0 + 2),
             fh_file_type = WT_FS_OPEN_FILE_TYPE_DATA,
             fh_flags = WT_FS_OPEN_CREATE ext_ok OR file_flags block0,
             fh_bucket = bucket_storage session0\<rparr>"
    by blast
  then have "objectid (snd (snd (wt_block_tiered_newfile ext_ok session_open_failed block_open_failed))) = 5 \<and>
    fh (snd (snd (wt_block_tiered_newfile ext_ok session_open_failed block_open_failed))) =
     Some \<lparr>fh_name = ''coll1.00000005'', fh_file_type = WT_FS_OPEN_FILE_TYPE_DATA,
            fh_flags = 4, fh_bucket = None\<rparr>"
    by (simp add: state_eval fmt_filename_example_5)
  with ok newfile_example_open_fail show ?thesis
    by (simp add: ext_open_fail_def block_open_failed_def state_eval)
qed

subsection \<open>Flush\<close>

text \<open>
  Claim C5, as amended. Every call of \<^verbatim>\<open>__wt_block_tiered_flush\<close> is a call of
  \<^verbatim>\<open>__wt_block_tiered_newfile\<close> with the same outcome, so a successful flush
  leaves the handle on the freshly opened next object, header only. The function
  produces no cookie: it never writes the cookie out-parameters, so on success as on
  failure the caller's cookie pointer and size come back exactly as they were passed in.
\<close>

theorem flush_rolls_and_keeps_cookie:
  assumes "wt_block_tiered_flush x s b flush_cookie cookie_size =
             (ret, s', b', flush_cookie', cookie_size')"
  shows "wt_block_tiered_newfile x s b = (ret, s', b') \<and>
    flush_cookie' = flush_cookie \<and> cookie_size' = cookie_size \<and>
    (ret = 0 \<longrightarrow>
       objectid b' = objectid b + 1 \<and>
       fh b' = Some \<lparr>fh_name = fmt_filename (name b) (objectid b + 1),
                      fh_file_type = WT_FS_OPEN_FILE_TYPE_DATA,
                      fh_flags = WT_FS_OPEN_CREATE x OR file_flags b,
                      fh_bucket = bucket_storage s\<rparr> \<and>
       size b' = ucast (allocsize b) \<and>
       new_calls s s' =
         [Scr_alloc 0, Close (fh b) 0, Buf_fmt (name b) (objectid b + 1) 0,
          Open_file (fmt_filename (name b) (objectid b + 1)) WT_FS_OPEN_FILE_TYPE_DATA
            (WT_FS_OPEN_CREATE x OR file_flags b) (bucket_storage s) 0,
          Desc_write (fh b') (allocsize b) 0, Ckpt_destroy, Ckpt_init ''live'' 0, Scr_free])"
proof -
  from assms have e: "wt_block_tiered_newfile x s b = (ret, s', b')"
    and c: "flush_cookie' = flush_cookie" "cookie_size' = cookie_size"
    by (simp_all add: wt_block_tiered_flush_def split: prod.splits)
  show ?thesis
  proof (cases "ret = 0")
    case True
    with e have "wt_block_tiered_newfile x s b = (0, s', b')" by simp
    from newfile_success [OF this] e c show ?thesis
      by (simp add: new_calls_def opened_fh_def)
  next
    case False
    with e c show ?thesis by simp
  qed
qed

lemma flush_example:
  "wt_block_tiered_flush ext_ok session0 block0 None 0 = (0, session1, block1, None, 0)"
  by (simp add: wt_block_tiered_flush_def newfile_example)

lemma flush_example_open_fail:
  "wt_block_tiered_flush ext_open_fail session0 block0 (Some [1, 2, 3]) 3 =
     (13, session_open_failed, block_open_failed, Some [1, 2, 3], 3)"
  by (simp add: wt_block_tiered_flush_def newfile_example_open_fail)

theorem flush_rolls_and_keeps_cookie_witness:
  "(wt_block_tiered_flush ext_ok session0 block0 None 0 = (0, session1, block1, None, 0) \<and>
    wt_block_tiered_newfile ext_ok session0 block0 = (0, session1, block1) \<and>
    objectid block0 = 3 \<and> objectid block1 = 4 \<and> fh block1 = Some fh1 \<and>
    fh_name fh1 = ''coll1.00000004'' \<and> size block1 = 4096) \<and>
   (wt_block_tiered_flush ext_open_fail session0 block0 (Some [1, 2, 3]) 3 =
      (13, session_open_failed, block_open_failed, Some [1, 2, 3], 3) \<and>
    wt_block_tiered_newfile ext_open_fail session0 block0 =
      (13, session_open_failed, block_open_failed))"
  using flush_rolls_and_keeps_cookie [OF flush_example]
    flush_rolls_and_keeps_cookie [OF flush_example_open_fail]
    flush_example flush_example_open_fail
  by (simp add: state_eval)

text \<open>
  Claim C5 as stated fails in its cookie half: a successful flush called with a
  \<^verbatim>\<open>NULL\<close> cookie pointer and a stale size of 7 returns success with the pointer
  still \<^verbatim>\<open>NULL\<close> and the size still 7, so no cookie value has been produced; and
  called with a stale three-byte buffer it hands back that same buffer whether the
  rollover succeeds or fails at the open.
\<close>

theorem flush_produces_no_cookie_counterexample:
  "wt_block_tiered_flush ext_ok session0 block0 None 7 = (0, session1, block1, None, 7) \<and>
   wt_block_tiered_flush ext_ok session0 block0 (Some [1, 2, 3]) 3 =
     (0, session1, block1, Some [1, 2, 3], 3) \<and>
   wt_block_tiered_flush ext_open_fail session0 block0 (Some [1, 2, 3]) 3 =
     (13, session_open_failed, block_open_failed, Some [1, 2, 3], 3)"
  by (simp add: wt_block_tiered_flush_def newfile_example newfile_example_open_fail)

subsection \<open>Failure of a step\<close>

lemma new_calls_append: "new_calls s (s\<lparr>io_log := io_log s @ cs\<rparr>) = cs"
  by (simp add: new_calls_def)


lemmas ext_fail_eval = ext_close_fail_def ext_buf_fmt_fail_def ext_open_fail_def
  ext_desc_write_fail_def

lemma result_triple: "r = (fst r, fst (snd r), snd (snd r))"
  by simp


subsection \<open>The live checkpoint under failure\<close>

text \<open>
  Claim C10. If \<^verbatim>\<open>__wt_block_tiered_newfile\<close> fails at or before the descriptor
  write (scratch-buffer allocation, close, filename formatting, open, or the descriptor
  write itself), it returns an error with the live checkpoint state exactly as it was,
  and neither \<^verbatim>\<open>__wt_block_ckpt_destroy\<close> nor \<^verbatim>\<open>__wt_block_ckpt_init\<close> has been
  called. When all those steps succeed, the destroy and the re-initialisation under the
  tag \<open>live\<close> follow the successful descriptor write, in that order.
\<close>

theorem newfile_early_failure_keeps_live:
  assumes "wt_block_tiered_newfile x s b = (ret, s', b')"
  shows
    "(scr_alloc_ret x \<noteq> 0 \<or> close_code x b \<noteq> 0 \<or> buf_fmt_ret x \<noteq> 0 \<or> open_ret x \<noteq> 0 \<or>
      desc_write_ret x \<noteq> 0 \<longrightarrow>
        ret \<noteq> 0 \<and> live b' = live b \<and> Ckpt_destroy \<notin> set (new_calls s s') \<and>
        (\<forall>nm r. Ckpt_init nm r \<notin> set (new_calls s s'))) \<and>
     (scr_alloc_ret x = 0 \<and> close_code x b = 0 \<and> buf_fmt_ret x = 0 \<and> open_ret x = 0 \<and>
      desc_write_ret x = 0 \<longrightarrow>
        ret = ckpt_init_ret x \<and>
        live b' = \<lparr>root_objectid = 0, ckpt_name = ''live'', ckpt_extents = [],
                    ckpt_valid = (ckpt_init_ret x = 0)\<rparr> \<and>
        new_calls s s' =
          [Scr_alloc 0, Close (fh b) 0, Buf_fmt (name b) (objectid b + 1) 0,
           Open_file (fmt_filename (name b) (objectid b + 1)) WT_FS_OPEN_FILE_TYPE_DATA
             (WT_FS_OPEN_CREATE x OR file_flags b) (bucket_storage s) 0,
           Desc_write (fh b') (allocsize b) 0,
           Ckpt_destroy, Ckpt_init ''live'' (ckpt_init_ret x), Scr_free])"
proof (intro conjI impI)
  assume early: "scr_alloc_ret x \<noteq> 0 \<or> close_code x b \<noteq> 0 \<or> buf_fmt_ret x \<noteq> 0 \<or>
    open_ret x \<noteq> 0 \<or> desc_write_ret x \<noteq> 0"
  consider (alloc) "scr_alloc_ret x \<noteq> 0"
    | (close) "scr_alloc_ret x = 0" "close_code x b \<noteq> 0"
    | (fmt) "scr_alloc_ret x = 0" "close_code x b = 0" "buf_fmt_ret x \<noteq> 0"
    | (opn) "scr_alloc_ret x = 0" "close_code x b = 0" "buf_fmt_ret x = 0" "open_ret x \<noteq> 0"
    | (desc) "scr_alloc_ret x = 0" "close_code x b = 0" "buf_fmt_ret x = 0" "open_ret x = 0"
        "desc_write_ret x \<noteq> 0"
    using early by blast
  then have "ret \<noteq> 0 \<and> live b' = live b \<and> Ckpt_destroy \<notin> set (new_calls s s') \<and>
        (\<forall>nm r. Ckpt_init nm r \<notin> set (new_calls s s'))"
  proof cases
    case alloc
    from assms newfile_scr_alloc_fail [OF alloc, of s b] alloc show ?thesis
      by (auto simp add: new_calls_append)
  next
    case close
    from assms newfile_close_fail [OF close, of s] close show ?thesis
      by (auto simp add: new_calls_append)
  next
    case fmt
    from assms newfile_buf_fmt_fail [OF fmt, of s] fmt show ?thesis
      by (auto simp add: new_calls_append)
  next
    case opn
    from assms newfile_open_fail [OF opn, of s] opn show ?thesis
      by (auto simp add: new_calls_append)
  next
    case desc
    from assms newfile_desc_write_fail [OF desc, of s] desc show ?thesis
      by (auto simp add: new_calls_append)
  qed
  then show "ret \<noteq> 0" and "live b' = live b" and "Ckpt_destroy \<notin> set (new_calls s s')"
    and "\<forall>nm r. Ckpt_init nm r \<notin> set (new_calls s s')"
    by simp_all
next
  assume "scr_alloc_ret x = 0 \<and> close_code x b = 0 \<and> buf_fmt_ret x = 0 \<and> open_ret x = 0 \<and>
      desc_write_ret x = 0"
  then have h: "scr_alloc_ret x = 0" "close_code x b = 0" "buf_fmt_ret x = 0" "open_ret x = 0"
    "desc_write_ret x = 0"
    by simp_all
  from assms newfile_past_desc_write [OF h, of s]
  show "ret = ckpt_init_ret x"
    and "live b' = \<lparr>root_objectid = 0, ckpt_name = ''live'', ckpt_extents = [],
                    ckpt_valid = (ckpt_init_ret x = 0)\<rparr>"
    and "new_calls s s' =
          [Scr_alloc 0, Close (fh b) 0, Buf_fmt (name b) (objectid b + 1) 0,
           Open_file (fmt_filename (name b) (objectid b + 1)) WT_FS_OPEN_FILE_TYPE_DATA
             (WT_FS_OPEN_CREATE x OR file_flags b) (bucket_storage s) 0,
           Desc_write (fh b') (allocsize b) 0,
           Ckpt_destroy, Ckpt_init ''live'' (ckpt_init_ret x), Scr_free]"
    by (auto simp add: new_calls_append)
qed

theorem newfile_early_failure_keeps_live_witness:
  "(desc_write_ret ext_desc_write_fail = 28 \<and>
    fst (wt_block_tiered_newfile ext_desc_write_fail session0 block0) \<noteq> 0 \<and>
    live (snd (snd (wt_block_tiered_newfile ext_desc_write_fail session0 block0))) = ckpt0 \<and>
    live block0 = ckpt0 \<and>
    Ckpt_destroy \<notin>
      set (new_calls session0
            (fst (snd (wt_block_tiered_newfile ext_desc_write_fail session0 block0))))) \<and>
   (wt_block_tiered_newfile ext_ok session0 block0 = (0, session1, block1) \<and>
    live block1 = ckpt_fresh \<and> ckpt_fresh \<noteq> ckpt0 \<and>
    new_calls session0 session1 =
      [Scr_alloc 0, Close (Some fh0) 0, Buf_fmt ''coll1'' 4 0,
       Open_file ''coll1.00000004'' WT_FS_OPEN_FILE_TYPE_DATA 4 None 0,
       Desc_write (Some fh1) 4096 0, Ckpt_destroy, Ckpt_init ''live'' 0, Scr_free])"
proof -
  have d: "desc_write_ret ext_desc_write_fail = 28"
    by (simp add: ext_fail_eval state_eval)
  from newfile_early_failure_keeps_live [of ext_desc_write_fail session0 block0, OF result_triple] d
  have 1: "fst (wt_block_tiered_newfile ext_desc_write_fail session0 block0) \<noteq> 0 \<and>
    live (snd (snd (wt_block_tiered_newfile ext_desc_write_fail session0 block0))) = live block0 \<and>
    Ckpt_destroy \<notin>
      set (new_calls session0
            (fst (snd (wt_block_tiered_newfile ext_desc_write_fail session0 block0))))"
    by simp
  have l: "live block0 = ckpt0" "live block1 = ckpt_fresh" "ckpt_fresh \<noteq> ckpt0"
    by (simp_all add: state_eval)
  have ok: "scr_alloc_ret ext_ok = 0 \<and> close_code ext_ok block0 = 0 \<and> buf_fmt_ret ext_ok = 0 \<and>
    open_ret ext_ok = 0 \<and> desc_write_ret ext_ok = 0"
    by (simp add: state_eval)
  from newfile_early_failure_keeps_live [OF newfile_example] ok
  have "new_calls session0 session1 =
          [Scr_alloc 0, Close (fh block0) 0, Buf_fmt (name block0) (objectid block0 + 1) 0,
           Open_file (fmt_filename (name block0) (objectid block0 + 1)) WT_FS_OPEN_FILE_TYPE_DATA
             (WT_FS_OPEN_CREATE ext_ok OR file_flags block0) (bucket_storage session0) 0,
           Desc_write (fh block1) (allocsize block0) 0,
           Ckpt_destroy, Ckpt_init ''live'' (ckpt_init_ret ext_ok), Scr_free]"
    by blast
  then have 2: "new_calls session0 session1 =
      [Scr_alloc 0, Close (Some fh0) 0, Buf_fmt ''coll1'' 4 0,
       Open_file ''coll1.00000004'' WT_FS_OPEN_FILE_TYPE_DATA 4 None 0,
       Desc_write (Some fh1) 4096 0, Ckpt_destroy, Ckpt_init ''live'' 0, Scr_free]"
    by (simp add: ext_ok_def block0_def block1_def session0_def fmt_filename_example)
  from d 1 l 2 newfile_example show ?thesis
    by simp
qed

subsection \<open>The name of the new object\<close>

text \<open>
  Claim C6. In every rollover the file that \<^verbatim>\<open>__wt_block_tiered_newfile\<close> opens is
  named by the handle's name, a dot, and the new object id in the format
  \<^verbatim>\<open>%08u\<close>: decimal digits padded on the left with zeros to eight characters. On
  success that is the name of the handle's new file. The numeral reads back as the
  object id, and it is exactly eight characters long as long as the id is below
  \<open>10^8\<close> (the format sets a least width, so larger ids take nine or ten digits).
\<close>

theorem newfile_filename_format:
  assumes "wt_block_tiered_newfile x s b = (ret, s', b')"
    and "Open_file f t fl bk r \<in> set (new_calls s s')"
  shows "f = name b @ ''.'' @ fmt_08u (objectid b') \<and> objectid b' = objectid b + 1 \<and>
    (r = 0 \<longrightarrow> fh b' = Some \<lparr>fh_name = f, fh_file_type = t, fh_flags = fl, fh_bucket = bk\<rparr>) \<and>
    8 \<le> length (fmt_08u (objectid b')) \<and>
    (length (fmt_08u (objectid b')) = 8) = (unat (objectid b') < 10 ^ 8) \<and>
    set (fmt_08u (objectid b')) \<subseteq> set ''0123456789'' \<and>
    dec_value (fmt_08u (objectid b')) = unat (objectid b')"
proof -
  have len: "(length (fmt_08u v) = 8) = (unat v < 10 ^ 8)" for v
  proof (cases "unat v < 10 ^ 8")
    case True
    from length_fmt_08u [OF True] True show ?thesis
      by blast
  next
    case False
    then have "10 ^ 8 \<le> unat v"
      by (simp only: linorder_not_less)
    from length_fmt_08u_large [OF this] have "length (fmt_08u v) \<noteq> 8"
      by (rule less_imp_neq [symmetric])
    with False show ?thesis
      by blast
  qed
  have digits: "8 \<le> length (fmt_08u v) \<and>
    (length (fmt_08u v) = 8) = (unat v < 10 ^ 8) \<and>
    set (fmt_08u v) \<subseteq> set ''0123456789'' \<and>
    dec_value (fmt_08u v) = unat v" for v
    using len [of v] length_fmt_08u_ge [of v] set_fmt_08u [of v] dec_value_fmt_08u [of v]
    by (intro conjI)
  consider (alloc) "scr_alloc_ret x \<noteq> 0"
    | (close) "scr_alloc_ret x = 0" "close_code x b \<noteq> 0"
    | (fmt) "scr_alloc_ret x = 0" "close_code x b = 0" "buf_fmt_ret x \<noteq> 0"
    | (opn) "scr_alloc_ret x = 0" "close_code x b = 0" "buf_fmt_ret x = 0" "open_ret x \<noteq> 0"
    | (desc) "scr_alloc_ret x = 0" "close_code x b = 0" "buf_fmt_ret x = 0" "open_ret x = 0"
        "desc_write_ret x \<noteq> 0"
    | (past) "scr_alloc_ret x = 0" "close_code x b = 0" "buf_fmt_ret x = 0" "open_ret x = 0"
        "desc_write_ret x = 0"
    by blast
  then have "f = name b @ ''.'' @ fmt_08u (objectid b') \<and> objectid b' = objectid b + 1 \<and>
    (r = 0 \<longrightarrow> fh b' = Some \<lparr>fh_name = f, fh_file_type = t, fh_flags = fl, fh_bucket = bk\<rparr>)"
  proof cases
    case alloc
    from assms newfile_scr_alloc_fail [OF alloc, of s b] show ?thesis
      by (auto simp add: new_calls_append)
  next
    case close
    from assms newfile_close_fail [OF close, of s] show ?thesis
      by (auto simp add: new_calls_append)
  next
    case fmt
    from assms newfile_buf_fmt_fail [OF fmt, of s] show ?thesis
      by (auto simp add: new_calls_append)
  next
    case opn
    from assms newfile_open_fail [OF opn, of s] opn show ?thesis
      by (auto simp add: new_calls_append fmt_filename_def)
  next
    case desc
    from assms newfile_desc_write_fail [OF desc, of s] show ?thesis
      by (auto simp add: new_calls_append fmt_filename_def opened_fh_def)
  next
    case past
    from assms newfile_past_desc_write [OF past, of s] show ?thesis
      by (auto simp add: new_calls_append fmt_filename_def opened_fh_def)
  qed
  with digits [of "objectid b'"] show ?thesis
    by blast
qed

lemma fmt_08u_example: "fmt_08u 4 = ''00000004''"
  by (simp add: fmt_eval)

theorem newfile_filename_format_witness:
  "wt_block_tiered_newfile ext_ok session0 block0 = (0, session1, block1) \<and>
   Open_file ''coll1.00000004'' WT_FS_OPEN_FILE_TYPE_DATA 4 None 0
     \<in> set (new_calls session0 session1) \<and>
   name block0 = ''coll1'' \<and> objectid block1 = 4 \<and> fmt_08u 4 = ''00000004'' \<and>
   ''coll1.00000004'' = name block0 @ ''.'' @ fmt_08u (objectid block1) \<and>
   fh block1 = Some \<lparr>fh_name = ''coll1.00000004'', fh_file_type = WT_FS_OPEN_FILE_TYPE_DATA,
                     fh_flags = 4, fh_bucket = None\<rparr> \<and>
   length (fmt_08u (objectid block1)) = 8 \<and> dec_value (fmt_08u (objectid block1)) = 4"
proof -
  have m: "Open_file ''coll1.00000004'' WT_FS_OPEN_FILE_TYPE_DATA 4 None 0
     \<in> set (new_calls session0 session1)"
    by (simp add: state_eval)
  have o: "name block0 = ''coll1''" "objectid block1 = 4" "unat (objectid block1) = 4"
    by (simp_all add: state_eval)
  from newfile_filename_format [OF newfile_example m] m o newfile_example fmt_08u_example
  show ?thesis
    by simp
qed

subsection \<open>Object ids over a run of rollovers\<close>

lemma map_upt_from_1:
  "map f [Suc 0..<Suc (Suc n)] = f (Suc 0) # map (\<lambda>i. f (Suc i)) [Suc 0..<Suc n]"
proof -
  have "[Suc 0..<Suc (Suc n)] = Suc 0 # [Suc (Suc 0)..<Suc (Suc n)]"
    by (rule upt_conv_Cons) simp
  also have "[Suc (Suc 0)..<Suc (Suc n)] = map Suc [Suc 0..<Suc n]"
    by (simp only: map_Suc_upt)
  finally show ?thesis
    by (simp add: comp_def)
qed

lemma newfile_calls_ids_word:
  "list_all (\<lambda>p. fst p = 0) (newfile_calls xs s b) \<Longrightarrow>
   map snd (newfile_calls xs s b) = map (\<lambda>i. objectid b + of_nat i) [1..<Suc (length xs)]"
proof (induction xs arbitrary: s b)
  case Nil
  show ?case by simp
next
  case (Cons x xs)
  obtain ret s' b' where e: "wt_block_tiered_newfile x s b = (ret, s', b')"
    by (cases "wt_block_tiered_newfile x s b")
  with Cons.prems have ret: "ret = 0"
    and rest: "list_all (\<lambda>p. fst p = 0) (newfile_calls xs s' b')"
    by simp_all
  from e ret newfile_success(2) [of x s b s' b'] have o: "objectid b' = objectid b + 1"
    by simp
  from Cons.IH [OF rest] o
  have "map snd (newfile_calls xs s' b') =
      map (\<lambda>i. objectid b + of_nat (Suc i)) [1..<Suc (length xs)]"
    by (simp add: add.assoc add.commute [of 1])
  with e o show ?case
    by (simp add: map_upt_from_1 del: upt_Suc)
qed

lemma length_newfile_calls: "length (newfile_calls xs s b) = length xs"
  by (induction xs arbitrary: s b) (simp_all split: prod.splits)

lemma unat_add_of_nat_32:
  "unat k + i < 2 ^ 32 \<Longrightarrow> unat (k + of_nat i :: 32 word) = unat k + i"
proof -
  assume a: "unat k + i < 2 ^ 32"
  then have "i < 2 ^ 32" by simp
  then have i: "unat (of_nat i :: 32 word) = i"
    by (simp add: unat_of_nat)
  with a have "unat k + unat (of_nat i :: 32 word) < 2 ^ LENGTH(32)"
    by simp
  then have "unat (k + of_nat i) = unat k + unat (of_nat i :: 32 word)"
    by (simp only: unat_add_lem)
  with i show ?thesis by simp
qed

lemma of_nat_32_inj:
  assumes "(of_nat i :: 32 word) = of_nat j" "0 < i" "i \<le> 2 ^ 32" "0 < j" "j \<le> 2 ^ 32"
  shows "i = j"
proof -
  from assms(1) have m: "i mod 2 ^ 32 = j mod 2 ^ 32"
    by (simp add: word_of_nat_eq_iff take_bit_eq_mod)
  show ?thesis
  proof (cases "i < 2 ^ 32")
    case True
    with m assms(4) have "j mod 2 ^ 32 \<noteq> 0"
      using assms(2) by simp
    with assms(5) have "j < 2 ^ 32"
      by (cases "j = 2 ^ 32") simp_all
    with True m show ?thesis by simp
  next
    case False
    with assms(3) have i: "i = 2 ^ 32" by simp
    with m have "j mod 2 ^ 32 = 0" by simp
    with assms(4,5) have "j = 2 ^ 32"
      by (cases "j < 2 ^ 32") simp_all
    with i show ?thesis by simp
  qed
qed

text \<open>
  Claim C2, as amended. After \<open>N\<close> successful calls of
  \<^verbatim>\<open>__wt_block_tiered_newfile\<close> on a handle starting at object id \<open>k\<close>, the ids
  after the calls are \<open>k+1, k+2, \<dots>, k+N\<close> computed in 32-bit unsigned arithmetic, that
  is modulo \<open>2^32\<close>. As long as \<open>k + N < 2^32\<close> they are these numbers exactly and
  strictly increasing from \<open>k\<close>; as long as \<open>N \<le> 2^32\<close> no id repeats.
\<close>

theorem newfile_calls_object_ids:
  assumes "list_all (\<lambda>p. fst p = 0) (newfile_calls xs s b)"
  shows "map snd (newfile_calls xs s b) =
      map (\<lambda>i. objectid b + of_nat i) [1..<Suc (length xs)] \<and>
    (unat (objectid b) + length xs < 2 ^ 32 \<longrightarrow>
       map (\<lambda>p. unat (snd p)) (newfile_calls xs s b) =
         map (\<lambda>i. unat (objectid b) + i) [1..<Suc (length xs)] \<and>
       sorted_wrt (<) (objectid b # map snd (newfile_calls xs s b))) \<and>
    (length xs \<le> 2 ^ 32 \<longrightarrow> distinct (map snd (newfile_calls xs s b)))"
proof (intro conjI impI)
  let ?f = "\<lambda>i. objectid b + of_nat i"
  show ids: "map snd (newfile_calls xs s b) = map ?f [1..<Suc (length xs)]"
    by (rule newfile_calls_ids_word [OF assms])
  {
    assume small: "unat (objectid b) + length xs < 2 ^ 32"
    have u: "unat (?f i) = unat (objectid b) + i" if "i \<le> length xs" for i
      using that small by (intro unat_add_of_nat_32) simp
    have "map (\<lambda>p. unat (snd p)) (newfile_calls xs s b) = map unat (map snd (newfile_calls xs s b))"
      by (simp add: comp_def)
    also have "\<dots> = map (\<lambda>i. unat (?f i)) [1..<Suc (length xs)]"
      by (simp only: ids map_map comp_def)
    also have "\<dots> = map (\<lambda>i. unat (objectid b) + i) [1..<Suc (length xs)]"
    proof (rule map_cong [OF refl])
      fix i
      assume "i \<in> set [1..<Suc (length xs)]"
      then have "i \<le> length xs" by (simp del: upt_Suc)
      then show "unat (?f i) = unat (objectid b) + i" by (rule u)
    qed
    finally show "map (\<lambda>p. unat (snd p)) (newfile_calls xs s b) =
        map (\<lambda>i. unat (objectid b) + i) [1..<Suc (length xs)]" .
    have "objectid b # map snd (newfile_calls xs s b) = map ?f [0..<Suc (length xs)]"
      by (simp only: ids) (simp add: upt_conv_Cons del: upt_Suc)
    moreover have "sorted_wrt (<) (map ?f [0..<Suc (length xs)])"
      unfolding sorted_wrt_map
    proof (rule sorted_wrt_mono_rel [OF _ sorted_wrt_upt])
      fix i j
      assume "i \<in> set [0..<Suc (length xs)]" "j \<in> set [0..<Suc (length xs)]" "i < j"
      then have "i \<le> length xs" "j \<le> length xs" "i < j" by (simp_all del: upt_Suc)
      then show "?f i < ?f j"
        by (simp only: word_less_nat_alt u)
    qed
    ultimately show "sorted_wrt (<) (objectid b # map snd (newfile_calls xs s b))"
      by simp
  }
  {
    assume n: "length xs \<le> 2 ^ 32"
    have "inj_on ?f (set [1..<Suc (length xs)])"
    proof (rule inj_onI)
      fix i j
      assume "i \<in> set [1..<Suc (length xs)]" "j \<in> set [1..<Suc (length xs)]" "?f i = ?f j"
      with n have "(of_nat i :: 32 word) = of_nat j" "0 < i" "i \<le> 2 ^ 32" "0 < j" "j \<le> 2 ^ 32"
        by (simp_all del: upt_Suc)
      then show "i = j" by (rule of_nat_32_inj)
    qed
    then have "distinct (map ?f [1..<Suc (length xs)])"
      by (simp add: distinct_map)
    then show "distinct (map snd (newfile_calls xs s b))"
      by (simp only: ids)
  }
qed

lemma newfile_ok_fst: "fst (wt_block_tiered_newfile ext_ok s b) = 0"
  by (rule newfile_all_ok) (simp_all add: ext_ok_def close_code_def split: option.splits)

lemma newfile_ok_objectid:
  "objectid (snd (snd (wt_block_tiered_newfile ext_ok s b))) = objectid b + 1"
proof -
  have "wt_block_tiered_newfile ext_ok s b =
      (0, fst (snd (wt_block_tiered_newfile ext_ok s b)),
       snd (snd (wt_block_tiered_newfile ext_ok s b)))"
    using newfile_ok_fst [of s b] by (simp add: prod_eq_iff)
  from newfile_success(2) [OF this] show ?thesis
    by simp
qed

lemma newfile_calls_ok_Cons:
  "newfile_calls (ext_ok # xs) s b =
     (0, objectid b + 1) #
       newfile_calls xs (fst (snd (wt_block_tiered_newfile ext_ok s b)))
         (snd (snd (wt_block_tiered_newfile ext_ok s b)))"
  using newfile_ok_fst [of s b] newfile_ok_objectid [of s b]
  by (simp add: case_prod_beta)

lemma newfile_calls_example:
  "newfile_calls [ext_ok, ext_ok] session0 block0 = [(0, 4), (0, 5)]"
  by (simp add: newfile_calls_ok_Cons newfile_ok_objectid block0_def
      del: newfile_calls.simps(2))

theorem newfile_calls_object_ids_witness:
  "list_all (\<lambda>p. fst p = 0) (newfile_calls [ext_ok, ext_ok] session0 block0) \<and>
   objectid block0 = 3 \<and>
   map snd (newfile_calls [ext_ok, ext_ok] session0 block0) = [4, 5] \<and>
   map (\<lambda>p. unat (snd p)) (newfile_calls [ext_ok, ext_ok] session0 block0) = [4, 5] \<and>
   sorted_wrt (<) (objectid block0 # map snd (newfile_calls [ext_ok, ext_ok] session0 block0)) \<and>
   distinct (map snd (newfile_calls [ext_ok, ext_ok] session0 block0))"
proof -
  have a: "list_all (\<lambda>p. fst p = 0) (newfile_calls [ext_ok, ext_ok] session0 block0)"
    by (simp only: newfile_calls_example) simp
  have k: "objectid block0 = 3"
    by (simp add: block0_def)
  have "unat (objectid block0) + length [ext_ok, ext_ok] < 2 ^ 32"
    "length [ext_ok, ext_ok] \<le> 2 ^ 32"
    by (simp_all add: k)
  with newfile_calls_object_ids [OF a]
  have "map (\<lambda>p. unat (snd p)) (newfile_calls [ext_ok, ext_ok] session0 block0) =
         map (\<lambda>i. unat (objectid block0) + i) [1..<Suc (length [ext_ok, ext_ok])] \<and>
       sorted_wrt (<) (objectid block0 # map snd (newfile_calls [ext_ok, ext_ok] session0 block0)) \<and>
       distinct (map snd (newfile_calls [ext_ok, ext_ok] session0 block0))"
    by blast
  with a k show ?thesis
    by (simp add: newfile_calls_example del: newfile_calls.simps)
qed

text \<open>
  Claim C2 as stated fails at the top of the range: two successful rollovers from
  object id \<open>2^32 - 2\<close> give the ids \<open>2^32 - 1\<close> and then \<open>0\<close>, which is neither
  \<open>k + 2\<close> nor above its predecessor.
\<close>

theorem newfile_calls_wrap_counterexample:
  "objectid block_wrap = 4294967294 \<and>
   newfile_calls [ext_ok, ext_ok] session0 block_wrap = [(0, 4294967295), (0, 0)] \<and>
   \<not> (4294967295 :: 32 word) < 0 \<and>
   unat (0 :: 32 word) \<noteq> unat (4294967294 :: 32 word) + 2"
  by (simp add: newfile_calls_ok_Cons newfile_ok_objectid block_wrap_def
      del: newfile_calls.simps(2))

end
